theory Spec2Isabelle
  imports Complex_Main
begin

section \<open>Compliance ledger, banking and pooling engine\<close>

text \<open>
  A shallow embedding of the backend of the FuelEU Maritime compliance module: the PostgreSQL
  tables of \<^verbatim>\<open>backend/database/schema.sql\<close>, the repositories that run SQL against them
  (\<^verbatim>\<open>PostgresBankingRepository\<close>, \<^verbatim>\<open>PostgresShipComplianceRepository\<close>,
  \<^verbatim>\<open>PostgresPoolRepository\<close>), the use cases \<^verbatim>\<open>PoolUseCase\<close> and \<^verbatim>\<open>BankingUseCase\<close>, and the
  two banking endpoints of \<^verbatim>\<open>bankingRoutes\<close>.

  Conventions of the model.
  \<^item> A table is the list of its rows in insertion order; a query filters (and sorts) that list.
  \<^item> JavaScript numbers and the \<^verbatim>\<open>DECIMAL(15, 2)\<close> columns are exact reals: neither IEEE
    rounding nor the rounding and width limits of the columns are modelled, and \<^verbatim>\<open>parseFloat\<close>
    of a column value is the identity.
  \<^item> \<^verbatim>\<open>CURRENT_TIMESTAMP\<close>, \<^verbatim>\<open>new Date()\<close> and \<^verbatim>\<open>Date.now()\<close> are a parameter \<open>now\<close> of the
    operation that reads the clock.
  \<^item> A \<^verbatim>\<open>SERIAL\<close> column draws its value from a counter stored beside the tables; the counter
    is not rolled back with a transaction.
  \<^item> An operation returns the database it leaves behind together with either the error it
    threw or its result; \<^verbatim>\<open>ROLLBACK\<close> returns the tables as they were at \<^verbatim>\<open>BEGIN\<close>.
  \<^item> Failures of the database connection itself are not modelled, and each operation runs
    alone: row locks and the interleaving of concurrent transactions are not modelled.
\<close>

subsection \<open>Tables\<close>

type_synonym timestamp = nat

record route_row =
  r_route_id :: string
  r_year :: int
  r_ghg_intensity :: real
  r_fuel_consumption :: real

record ship_compliance_row =
  sc_id :: nat
  sc_ship_id :: string
  sc_year :: int
  sc_cb_gco2eq :: real
  sc_created_at :: timestamp
  sc_updated_at :: timestamp

record bank_entry_row =
  be_id :: nat
  be_ship_id :: string
  be_year :: int
  be_amount_gco2eq :: real
  be_created_at :: timestamp

record pool_row =
  p_id :: nat
  p_name :: "string option"
  p_year :: int
  p_created_at :: timestamp

record pool_member_row =
  pm_pool_id :: nat
  pm_ship_id :: string
  pm_cb_before :: real
  pm_cb_after :: real

record db =
  routes :: "route_row list"
  ship_compliance :: "ship_compliance_row list"
  ship_compliance_id_seq :: nat
  bank_entries :: "bank_entry_row list"
  bank_entries_id_seq :: nat
  pools :: "pool_row list"
  pools_id_seq :: nat
  pool_members :: "pool_member_row list"

subsection \<open>Errors\<close>

text \<open>
  The code throws \<^verbatim>\<open>Error\<close> objects told apart by their message, and the endpoints answer
  400 for a malformed request. Each constructor stands for one message and carries the values
  the message interpolates.
\<close>

datatype violation =
    DeficitExitsWorse string real real
  | SurplusExitsNegative string real real

datatype error =
    InvalidArgument string
  | NoComplianceBalance string int
  | InsufficientSurplus real real
  | InsufficientBankedSurplus real real
  | UseShipMethod
  | MissingBalance string int
  | NegativePoolSum
  | Article21Violation "violation list"
  | SavePoolFailed
  | RouteDoesNotExist string
  | RouteNotFoundForYear string int "int list"
  | SaveComplianceFailed

subsection \<open>PostgresBankingRepository\<close>

definition ship_year_sc :: "string \<Rightarrow> int \<Rightarrow> ship_compliance_row \<Rightarrow> bool" where
  "ship_year_sc shipId year r \<longleftrightarrow> sc_ship_id r = shipId \<and> sc_year r = year"

definition ship_year_be :: "string \<Rightarrow> int \<Rightarrow> bank_entry_row \<Rightarrow> bool" where
  "ship_year_be shipId year e \<longleftrightarrow> be_ship_id e = shipId \<and> be_year e = year"

text \<open>\<^verbatim>\<open>UPDATE ship_compliance SET cb_gco2eq = cb_gco2eq + delta, updated_at = CURRENT_TIMESTAMP
  WHERE ship_id = shipId AND year = year\<close>\<close>

definition update_cb :: "timestamp \<Rightarrow> string \<Rightarrow> int \<Rightarrow> real \<Rightarrow> ship_compliance_row list
    \<Rightarrow> ship_compliance_row list" where
  "update_cb now shipId year delta tbl =
     map (\<lambda>r. if ship_year_sc shipId year r
               then r\<lparr>sc_cb_gco2eq := sc_cb_gco2eq r + delta, sc_updated_at := now\<rparr>
               else r) tbl"

text \<open>\<^verbatim>\<open>getComplianceBalance(year)\<close>: the total over all ships of the year.\<close>

definition getComplianceBalance :: "db \<Rightarrow> int \<Rightarrow> real" where
  "getComplianceBalance d year =
     sum_list (map sc_cb_gco2eq (filter (\<lambda>r. sc_year r = year) (ship_compliance d)))"

definition bankSurplusForShip :: "db \<Rightarrow> timestamp \<Rightarrow> string \<Rightarrow> int \<Rightarrow> real \<Rightarrow> db \<times> (error + unit)" where
  "bankSurplusForShip d now shipId year amount =
     (case filter (ship_year_sc shipId year) (ship_compliance d) of
        [] \<Rightarrow> (d, Inl (NoComplianceBalance shipId year))
      | row # _ \<Rightarrow>
          let currentCb = sc_cb_gco2eq row in
          if currentCb < amount then (d, Inl (InsufficientSurplus currentCb amount))
          else
            (d\<lparr>ship_compliance := update_cb now shipId year (- amount) (ship_compliance d),
               bank_entries := bank_entries d @
                 [\<lparr>be_id = bank_entries_id_seq d, be_ship_id = shipId, be_year = year,
                   be_amount_gco2eq = amount, be_created_at = now\<rparr>],
               bank_entries_id_seq := Suc (bank_entries_id_seq d)\<rparr>,
             Inr ()))"

definition getBankedAmountForShip :: "db \<Rightarrow> string \<Rightarrow> int \<Rightarrow> real" where
  "getBankedAmountForShip d shipId year =
     sum_list (map be_amount_gco2eq (filter (ship_year_be shipId year) (bank_entries d)))"






text \<open>The legacy method \<^verbatim>\<open>bankSurplus(year, amount)\<close>, deprecated: it only throws.\<close>

definition bankSurplus_legacy :: "db \<Rightarrow> int \<Rightarrow> real \<Rightarrow> db \<times> (error + unit)" where
  "bankSurplus_legacy d year amount = (d, Inl UseShipMethod)"

subsection \<open>The banking endpoints\<close>

text \<open>
  \<^verbatim>\<open>POST /api/banking/bank\<close> and \<^verbatim>\<open>POST /api/banking/apply\<close> validate the body and call the
  repository directly. The body is modelled after JSON decoding, with its three fields typed;
  \<^verbatim>\<open>trim\<close> strips ASCII white space.
\<close>

definition isWhiteSpace :: "char \<Rightarrow> bool" where
  "isWhiteSpace c \<longleftrightarrow> c \<in> set [CHR '' '', CHR 0x09, CHR 0x0A, CHR 0x0B, CHR 0x0C, CHR 0x0D]"

definition trim :: "string \<Rightarrow> string" where
  "trim s = rev (dropWhile isWhiteSpace (rev (dropWhile isWhiteSpace s)))"

record BankingBody =
  body_shipId :: string
  body_year :: int
  body_amount :: real

definition postBankingBank :: "db \<Rightarrow> timestamp \<Rightarrow> BankingBody \<Rightarrow> db \<times> (error + real)" where
  "postBankingBank d now body =
     (if trim (body_shipId body) = [] then (d, Inl (InvalidArgument ''shipId''))
      else if body_year body \<le> 0 then (d, Inl (InvalidArgument ''year''))
      else if body_amount body \<le> 0 then (d, Inl (InvalidArgument ''amount''))
      else
        (case bankSurplusForShip d now (trim (body_shipId body)) (body_year body) (body_amount body) of
           (d', Inl e) \<Rightarrow> (d', Inl e)
         | (d', Inr _) \<Rightarrow>
             (d', Inr (getBankedAmountForShip d' (trim (body_shipId body)) (body_year body)))))"





text \<open>The ledger value of one ship and year, as \<^verbatim>\<open>findByShipAndYear\<close> reads it.\<close>

definition ledgerValue :: "db \<Rightarrow> string \<Rightarrow> int \<Rightarrow> real option" where
  "ledgerValue d shipId year =
     (case filter (ship_year_sc shipId year) (ship_compliance d) of
        [] \<Rightarrow> None
      | row # _ \<Rightarrow> Some (sc_cb_gco2eq row))"

subsection \<open>BankingUseCase\<close>

record BankOperation =
  op_year :: int
  op_amount :: real

record BankingResult =
  res_cbBefore :: real
  res_applied :: real
  res_cbAfter :: real
  res_success :: bool
  res_message :: "string option"

definition bankSurplus :: "db \<Rightarrow> BankOperation \<Rightarrow> db \<times> (error + BankingResult)" where
  "bankSurplus d operation =
     (let currentCB = getComplianceBalance d (op_year operation) in
      if currentCB \<le> 0
      then (d, Inr \<lparr>res_cbBefore = currentCB, res_applied = 0, res_cbAfter = currentCB,
                     res_success = False,
                     res_message = Some ''Cannot bank: Compliance Balance is not positive''\<rparr>)
      else
        let bankedAmount = min (op_amount operation) currentCB in
        (case bankSurplus_legacy d (op_year operation) bankedAmount of
           (d', Inl e) \<Rightarrow> (d', Inl e)
         | (d', Inr _) \<Rightarrow>
             (d', Inr \<lparr>res_cbBefore = currentCB, res_applied = bankedAmount,
                        res_cbAfter = currentCB - bankedAmount, res_success = True,
                        res_message = None\<rparr>)))"


subsection \<open>PostgresShipComplianceRepository\<close>

record ShipCompliance =
  compliance_id :: "nat option"
  compliance_shipId :: string
  compliance_year :: int
  cbGco2eq :: real
  compliance_createdAt :: "timestamp option"
  compliance_updatedAt :: "timestamp option"


text \<open>The object built from a returned row.\<close>

definition of_row :: "ship_compliance_row \<Rightarrow> ShipCompliance" where
  "of_row row =
     \<lparr>compliance_id = Some (sc_id row), compliance_shipId = sc_ship_id row,
      compliance_year = sc_year row, cbGco2eq = sc_cb_gco2eq row,
      compliance_createdAt = Some (sc_created_at row),
      compliance_updatedAt = Some (sc_updated_at row)\<rparr>"

definition findByShipAndYear :: "db \<Rightarrow> string \<Rightarrow> int \<Rightarrow> ShipCompliance option" where
  "findByShipAndYear d shipId year =
     (case filter (ship_year_sc shipId year) (ship_compliance d) of
        [] \<Rightarrow> None
      | row # _ \<Rightarrow> Some (of_row row))"

text \<open>
  \<^verbatim>\<open>save\<close>: with a (truthy) id an \<^verbatim>\<open>UPDATE .. WHERE id = .. RETURNING ..\<close>, which throws when it
  returns no row; without one an \<^verbatim>\<open>INSERT .. ON CONFLICT (ship_id, year) DO UPDATE\<close>. The insert
  draws an id from the counter whether or not the conflict arises.
\<close>

definition set_cb :: "timestamp \<Rightarrow> real \<Rightarrow> ship_compliance_row \<Rightarrow> ship_compliance_row" where
  "set_cb now cb r = r\<lparr>sc_cb_gco2eq := cb, sc_updated_at := now\<rparr>"






subsection \<open>PostgresPoolRepository and PoolUseCase\<close>

record PoolMember =
  shipId :: string
  adjustedCB :: real
  cbBefore :: real
  cbAfter :: real

record Pool =
  poolId :: string
  pool_name :: "string option"
  pool_year :: int
  members :: "PoolMember list"
  poolSum :: real
  createdAt :: timestamp

record CreatePoolRequest =
  req_name :: "string option"
  req_year :: int
  memberShipIds :: "string list"

text \<open>\<^verbatim>\<open>toString\<close> of a non-negative integer.\<close>

fun decimal :: "nat \<Rightarrow> string" where
  "decimal n =
     (if n < 10 then [char_of (48 + n)]
      else decimal (n div 10) @ [char_of (48 + n mod 10)])"

declare decimal.simps [simp del]

text \<open>
  The member inserts of \<^verbatim>\<open>PostgresPoolRepository.save\<close>. \<^verbatim>\<open>pool_members\<close> has the primary key
  \<^verbatim>\<open>(pool_id, ship_id)\<close>: an insert that repeats a key fails, and \<open>None\<close> is that failure.
\<close>

definition member_row :: "nat \<Rightarrow> PoolMember \<Rightarrow> pool_member_row" where
  "member_row pid member =
     \<lparr>pm_pool_id = pid, pm_ship_id = shipId member,
      pm_cb_before = cbBefore member, pm_cb_after = cbAfter member\<rparr>"

fun insertMembers :: "nat \<Rightarrow> PoolMember list \<Rightarrow> pool_member_row list \<Rightarrow> pool_member_row list option" where
  "insertMembers pid [] tbl = Some tbl"
| "insertMembers pid (member # rest) tbl =
     (if \<exists>r \<in> set tbl. pm_pool_id r = pid \<and> pm_ship_id r = shipId member then None
      else insertMembers pid rest (tbl @ [member_row pid member]))"

text \<open>\<^verbatim>\<open>poolData.name || null\<close>: the empty string is falsy.\<close>

definition name_or_null :: "string option \<Rightarrow> string option" where
  "name_or_null n = (case n of None \<Rightarrow> None | Some s \<Rightarrow> if s = [] then None else Some s)"

definition savePool :: "db \<Rightarrow> Pool \<Rightarrow> db \<times> (error + Pool)" where
  "savePool d poolData =
     (let pid = pools_id_seq d;
          row = \<lparr>p_id = pid, p_name = name_or_null (pool_name poolData),
                 p_year = pool_year poolData, p_created_at = createdAt poolData\<rparr> in
      case insertMembers pid (members poolData) (pool_members d) of
        None \<Rightarrow> (d\<lparr>pools_id_seq := Suc pid\<rparr>, Inl SavePoolFailed)
      | Some tbl \<Rightarrow>
          (d\<lparr>pools := pools d @ [row], pool_members := tbl, pools_id_seq := Suc pid\<rparr>,
           Inr (poolData\<lparr>poolId := decimal pid\<rparr>)))"

text \<open>Step 1 of \<^verbatim>\<open>createPool\<close>: the loop that reads each member's balance.\<close>

fun collectMembers :: "db \<Rightarrow> int \<Rightarrow> string list \<Rightarrow> error + PoolMember list" where
  "collectMembers d year [] = Inr []"
| "collectMembers d year (sid # rest) =
     (case findByShipAndYear d sid year of
        None \<Rightarrow> Inl (MissingBalance sid year)
      | Some shipCompliance \<Rightarrow>
          (case collectMembers d year rest of
             Inl e \<Rightarrow> Inl e
           | Inr ms \<Rightarrow>
               Inr (\<lparr>shipId = sid, adjustedCB = cbGco2eq shipCompliance,
                      cbBefore = cbGco2eq shipCompliance, cbAfter = 0\<rparr> # ms)))"

text \<open>Step 4: the loop that collects the messages of the two Article 21 rules.\<close>

fun validateMembers :: "real \<Rightarrow> PoolMember list \<Rightarrow> violation list" where
  "validateMembers share [] = []"
| "validateMembers share (member # rest) =
     (if cbBefore member < 0 \<and> share < cbBefore member
      then [DeficitExitsWorse (shipId member) (cbBefore member) share] else []) @
     (if cbBefore member > 0 \<and> share < 0
      then [SurplusExitsNegative (shipId member) (cbBefore member) share] else []) @
     validateMembers share rest"

text \<open>
  Steps 4 and 5, from the validation loop to the call of the repository, as a function of the
  members read, the pool sum and the share computed in step 3.
\<close>

definition validateAndSave :: "db \<Rightarrow> timestamp \<Rightarrow> CreatePoolRequest \<Rightarrow> PoolMember list \<Rightarrow> real \<Rightarrow> real
    \<Rightarrow> db \<times> (error + Pool)" where
  "validateAndSave d now request ms psum share =
     (let validationErrors = validateMembers share ms in
      if validationErrors \<noteq> [] then (d, Inl (Article21Violation validationErrors))
      else
        savePool d
          \<lparr>poolId = ''pool-'' @ decimal now, pool_name = req_name request,
           pool_year = req_year request, members = map (\<lambda>m. m\<lparr>cbAfter := share\<rparr>) ms,
           poolSum = psum, createdAt = now\<rparr>)"

definition createPool :: "db \<Rightarrow> timestamp \<Rightarrow> CreatePoolRequest \<Rightarrow> db \<times> (error + Pool)" where
  "createPool d now request =
     (case collectMembers d (req_year request) (memberShipIds request) of
        Inl e \<Rightarrow> (d, Inl e)
      | Inr ms \<Rightarrow>
          (let psum = foldl (\<lambda>acc member. acc + adjustedCB member) 0 ms in
           if psum < 0 then (d, Inl NegativePoolSum)
           else validateAndSave d now request ms psum (psum / real (length ms))))"

text \<open>
  Every row of \<^verbatim>\<open>pool_members\<close> refers to a pool id already drawn from the counter: the
  foreign key to \<^verbatim>\<open>pools\<close> together with the \<^verbatim>\<open>SERIAL\<close> id of \<^verbatim>\<open>pools\<close>.
\<close>

definition pool_ids_ok :: "db \<Rightarrow> bool" where
  "pool_ids_ok d \<longleftrightarrow> list_all (\<lambda>r. pm_pool_id r < pools_id_seq d) (pool_members d)"

subsection \<open>The selected entries after the loop\<close>



subsection \<open>Example databases\<close>

text \<open>Ship E1 with a balance of 10000 in 2024 and nothing banked.\<close>

definition db_E1 :: db where
  "db_E1 =
     \<lparr>routes = [],
      ship_compliance =
        [\<lparr>sc_id = 1, sc_ship_id = ''E1'', sc_year = 2024, sc_cb_gco2eq = 10000,
          sc_created_at = 0, sc_updated_at = 0\<rparr>],
      ship_compliance_id_seq = 2, bank_entries = [], bank_entries_id_seq = 1,
      pools = [], pools_id_seq = 1, pool_members = []\<rparr>"

definition bank_E1 :: "real \<Rightarrow> BankingBody" where
  "bank_E1 amount = \<lparr>body_shipId = ''E1'', body_year = 2024, body_amount = amount\<rparr>"

text \<open>Three entries of E1, stored out of their order in time, and one of E2.\<close>

definition db_fifo :: db where
  "db_fifo =
     \<lparr>routes = [],
      ship_compliance =
        [\<lparr>sc_id = 1, sc_ship_id = ''E1'', sc_year = 2024, sc_cb_gco2eq = - 400,
          sc_created_at = 0, sc_updated_at = 0\<rparr>],
      ship_compliance_id_seq = 2,
      bank_entries =
        [\<lparr>be_id = 1, be_ship_id = ''E1'', be_year = 2024, be_amount_gco2eq = 300, be_created_at = 30\<rparr>,
         \<lparr>be_id = 2, be_ship_id = ''E1'', be_year = 2024, be_amount_gco2eq = 100, be_created_at = 10\<rparr>,
         \<lparr>be_id = 3, be_ship_id = ''E2'', be_year = 2024, be_amount_gco2eq = 50, be_created_at = 15\<rparr>,
         \<lparr>be_id = 4, be_ship_id = ''E1'', be_year = 2024, be_amount_gco2eq = 200, be_created_at = 20\<rparr>],
      bank_entries_id_seq = 5,
      pools = [], pools_id_seq = 1, pool_members = []\<rparr>"

text \<open>
  Five ships with balances for 2024: E1 has a deficit of 10000, E2 and E3 surpluses of 15000
  and 5000, E4 a deficit of 20000 and E5 a surplus of 5000. Six pool ids have been drawn.
\<close>

definition sc_row :: "nat \<Rightarrow> string \<Rightarrow> real \<Rightarrow> ship_compliance_row" where
  "sc_row i ship cb =
     \<lparr>sc_id = i, sc_ship_id = ship, sc_year = 2024, sc_cb_gco2eq = cb,
      sc_created_at = 0, sc_updated_at = 0\<rparr>"

definition db_fleet :: db where
  "db_fleet =
     \<lparr>routes = [],
      ship_compliance =
        [sc_row 1 ''E1'' (- 10000), sc_row 2 ''E2'' 15000, sc_row 3 ''E3'' 5000,
         sc_row 4 ''E4'' (- 20000), sc_row 5 ''E5'' 5000],
      ship_compliance_id_seq = 6, bank_entries = [], bank_entries_id_seq = 1,
      pools = [], pools_id_seq = 7, pool_members = []\<rparr>"

definition pool_request :: "string list \<Rightarrow> CreatePoolRequest" where
  "pool_request ids = \<lparr>req_name = Some ''Pool'', req_year = 2024, memberShipIds = ids\<rparr>"

definition pool_member :: "string \<Rightarrow> real \<Rightarrow> real \<Rightarrow> PoolMember" where
  "pool_member ship before after =
     \<lparr>shipId = ship, adjustedCB = before, cbBefore = before, cbAfter = after\<rparr>"

text \<open>The database and the pool after E1, E2 and E3 have pooled at time 9.\<close>

definition db_pooled :: db where
  "db_pooled =
     db_fleet\<lparr>pools := [\<lparr>p_id = 7, p_name = Some ''Pool'', p_year = 2024, p_created_at = 9\<rparr>],
              pool_members :=
                [\<lparr>pm_pool_id = 7, pm_ship_id = ''E1'', pm_cb_before = - 10000, pm_cb_after = 10000 / 3\<rparr>,
                 \<lparr>pm_pool_id = 7, pm_ship_id = ''E2'', pm_cb_before = 15000, pm_cb_after = 10000 / 3\<rparr>,
                 \<lparr>pm_pool_id = 7, pm_ship_id = ''E3'', pm_cb_before = 5000, pm_cb_after = 10000 / 3\<rparr>],
              pools_id_seq := 8\<rparr>"

definition pool_A :: "error + Pool" where
  "pool_A =
     Inr \<lparr>poolId = decimal 7, pool_name = Some ''Pool'', pool_year = 2024,
          members = [pool_member ''E1'' (- 10000) (10000 / 3), pool_member ''E2'' 15000 (10000 / 3),
                     pool_member ''E3'' 5000 (10000 / 3)],
          poolSum = 10000, createdAt = 9\<rparr>"




section \<open>Banking: the loop, the ledger and the banked total\<close>

subsection \<open>Sorting and selecting\<close>














subsection \<open>The loop of \<^verbatim>\<open>applyBankedSurplusToShip\<close>\<close>











subsection \<open>One operation\<close>

lemma filter_update_cb_same:
  "filter (ship_year_sc ship year) (update_cb now ship year delta tbl) =
     map (\<lambda>r. r\<lparr>sc_cb_gco2eq := sc_cb_gco2eq r + delta, sc_updated_at := now\<rparr>)
       (filter (ship_year_sc ship year) tbl)"
  by (induction tbl) (simp_all add: update_cb_def ship_year_sc_def)

lemma filter_update_cb_other:
  "(s, y) \<noteq> (ship, year) \<Longrightarrow>
   filter (ship_year_sc s y) (update_cb now ship year delta tbl) = filter (ship_year_sc s y) tbl"
  by (induction tbl) (auto simp: update_cb_def ship_year_sc_def)

lemma ledgerValue_update_cb_same:
  "ledgerValue (d\<lparr>ship_compliance := update_cb now ship year delta (ship_compliance d)\<rparr>) ship year
     = map_option (\<lambda>v. v + delta) (ledgerValue d ship year)"
  by (simp add: ledgerValue_def filter_update_cb_same split: list.splits)

lemma ledgerValue_update_cb_other:
  "(s, y) \<noteq> (ship, year) \<Longrightarrow>
   ledgerValue (d\<lparr>ship_compliance := update_cb now ship year delta (ship_compliance d)\<rparr>) s y
     = ledgerValue d s y"
  by (simp add: ledgerValue_def filter_update_cb_other)

lemma ledgerValue_bank_entries [simp]:
  "ledgerValue (d\<lparr>bank_entries := tbl\<rparr>) ship year = ledgerValue d ship year"
  "ledgerValue (d\<lparr>bank_entries_id_seq := n\<rparr>) ship year = ledgerValue d ship year"
  by (simp_all add: ledgerValue_def)

lemma banked_ship_compliance [simp]:
  "getBankedAmountForShip (d\<lparr>ship_compliance := tbl\<rparr>) ship year = getBankedAmountForShip d ship year"
  "getBankedAmountForShip (d\<lparr>bank_entries_id_seq := n\<rparr>) ship year = getBankedAmountForShip d ship year"
  by (simp_all add: getBankedAmountForShip_def)




subsection \<open>The endpoints and sequences of requests\<close>





section \<open>Claims on banking\<close>









text \<open>
  C5 (all-or-nothing bank). If the ledger value \<open>v\<close> of the ship and year is less than the
  amount, \<^verbatim>\<open>bankSurplusForShip\<close> throws the ``Insufficient surplus'' error carrying \<open>v\<close> and the
  amount, and the database it leaves is the one it found; so does the bank endpoint for a
  well-formed body (when \<open>v \<le> 0\<close> every amount the endpoint accepts is larger than \<open>v\<close>).
  Nothing is banked, neither the amount nor a part of it. \<^verbatim>\<open>BankingUseCase.bankSurplus\<close>, which
  would clamp the amount to the fleet balance of the year, is not called by the endpoint; it
  hands the clamped amount to the legacy repository method, which always throws, so it never
  changes the database and never reports an amount as banked.
\<close>

theorem bank_insufficient_surplus:
  "(ledgerValue d ship year = Some v \<and> v < amount \<longrightarrow>
      bankSurplusForShip d now ship year amount = (d, Inl (InsufficientSurplus v amount))) \<and>
   (ledgerValue d (trim (body_shipId body)) (body_year body) = Some v \<and> v < body_amount body \<and>
    trim (body_shipId body) \<noteq> [] \<and> 0 < body_year body \<and> 0 < body_amount body \<longrightarrow>
      postBankingBank d now body = (d, Inl (InsufficientSurplus v (body_amount body)))) \<and>
   fst (bankSurplus d operation) = d \<and>
   (\<forall>r. snd (bankSurplus d operation) = Inr r \<longrightarrow> \<not> res_success r \<and> res_applied r = 0)"
proof -
  have repo: "bankSurplusForShip d now s y a = (d, Inl (InsufficientSurplus v a))"
    if "ledgerValue d s y = Some v" and "v < a" for s y a
    using that
    by (auto simp: bankSurplusForShip_def ledgerValue_def Let_def split: list.splits)
  have endpoint: "postBankingBank d now body = (d, Inl (InsufficientSurplus v (body_amount body)))"
    if "ledgerValue d (trim (body_shipId body)) (body_year body) = Some v" and "v < body_amount body"
      and "trim (body_shipId body) \<noteq> []" and "0 < body_year body" and "0 < body_amount body"
    using that repo [OF that(1,2)] by (simp add: postBankingBank_def)
  have usecase: "fst (bankSurplus d operation) = d"
    by (simp add: bankSurplus_def bankSurplus_legacy_def Let_def)
  have refused: "\<forall>r. snd (bankSurplus d operation) = Inr r \<longrightarrow> \<not> res_success r \<and> res_applied r = 0"
    by (auto simp: bankSurplus_def bankSurplus_legacy_def Let_def split: if_splits)
  from repo endpoint usecase refused show ?thesis by blast
qed

text \<open>
  E1 holds 10000 and asks to bank 15000: the request fails and nothing changes. In \<open>db_fifo\<close>
  the fleet balance of 2024 is \<open>- 400\<close> and the use case refuses without an error.
\<close>

theorem bank_insufficient_surplus_witness:
  "ledgerValue db_E1 ''E1'' 2024 = Some 10000 \<and> (10000::real) < 15000 \<and>
   bankSurplusForShip db_E1 5 ''E1'' 2024 15000 = (db_E1, Inl (InsufficientSurplus 10000 15000)) \<and>
   postBankingBank db_E1 5 (bank_E1 15000) = (db_E1, Inl (InsufficientSurplus 10000 15000)) \<and>
   bankSurplus db_fifo \<lparr>op_year = 2024, op_amount = 100\<rparr> =
     (db_fifo, Inr \<lparr>res_cbBefore = - 400, res_applied = 0, res_cbAfter = - 400, res_success = False,
                    res_message = Some ''Cannot bank: Compliance Balance is not positive''\<rparr>)"
proof -
  have h: "ledgerValue db_E1 ''E1'' 2024 = Some 10000"
    by (simp add: ledgerValue_def db_E1_def ship_year_sc_def)
  have key: "trim (body_shipId (bank_E1 15000)) = ''E1''" "body_year (bank_E1 15000) = 2024"
    "body_amount (bank_E1 15000) = 15000"
    by (simp_all add: bank_E1_def trim_def isWhiteSpace_def)
  note t = bank_insufficient_surplus [of db_E1 "''E1''" 2024 10000 15000 5 "bank_E1 15000"]
  from t h have r: "bankSurplusForShip db_E1 5 ''E1'' 2024 15000 =
      (db_E1, Inl (InsufficientSurplus 10000 15000))"
    by simp
  from t h key have e: "postBankingBank db_E1 5 (bank_E1 15000) =
      (db_E1, Inl (InsufficientSurplus 10000 15000))"
    by simp
  let ?res = "\<lparr>res_cbBefore = - 400, res_applied = 0, res_cbAfter = - 400, res_success = False,
                res_message = Some ''Cannot bank: Compliance Balance is not positive''\<rparr>"
  have u: "snd (bankSurplus db_fifo \<lparr>op_year = 2024, op_amount = 100\<rparr>) = Inr ?res"
    by (simp add: bankSurplus_def getComplianceBalance_def db_fifo_def)
  from bank_insufficient_surplus [of db_fifo _ _ _ _ _ _ "\<lparr>op_year = 2024, op_amount = 100\<rparr>"] u
  have "fst (bankSurplus db_fifo \<lparr>op_year = 2024, op_amount = 100\<rparr>) = db_fifo \<and>
        \<not> res_success ?res \<and> res_applied ?res = 0"
    by blast
  with u have b: "bankSurplus db_fifo \<lparr>op_year = 2024, op_amount = 100\<rparr> = (db_fifo, Inr ?res)"
    by (simp add: prod_eq_iff)
  from h r e b show ?thesis by simp
qed

section \<open>Pooling: reading the members, validating, saving\<close>

lemma foldl_adjustedCB:
  "foldl (\<lambda>acc member. acc + adjustedCB member) a ms = a + sum_list (map adjustedCB ms)"
  by (induction ms arbitrary: a) simp_all

lemma collectMembers_Inr:
  assumes "collectMembers d yr ids = Inr ms"
  shows "map shipId ms = ids"
    and "\<forall>m \<in> set ms. cbBefore m = adjustedCB m \<and> cbAfter m = 0 \<and>
           (\<exists>sc. findByShipAndYear d (shipId m) yr = Some sc \<and> cbGco2eq sc = cbBefore m)"
  using assms
  by (induction ids arbitrary: ms; fastforce split: option.splits sum.splits)+

lemma collectMembers_first_missing:
  assumes "\<forall>s \<in> set pre. findByShipAndYear d s yr \<noteq> None"
    and "findByShipAndYear d sid yr = None"
  shows "collectMembers d yr (pre @ sid # post) = Inl (MissingBalance sid yr)"
  using assms by (induction pre) (auto split: option.splits sum.splits)

lemma collectMembers_Inl:
  assumes "collectMembers d yr ids = Inl e"
  shows "\<exists>sid \<in> set ids. findByShipAndYear d sid yr = None \<and> e = MissingBalance sid yr"
  using assms by (induction ids) (auto split: option.splits sum.splits)

lemma validateMembers_empty_iff:
  "validateMembers share ms = [] \<longleftrightarrow>
     (\<forall>m \<in> set ms. \<not> (cbBefore m < 0 \<and> share < cbBefore m) \<and> \<not> (cbBefore m > 0 \<and> share < 0))"
  by (induction ms) auto

lemma validateMembers_complete:
  assumes "m \<in> set ms"
  shows "(cbBefore m < 0 \<and> share < cbBefore m \<longrightarrow>
            DeficitExitsWorse (shipId m) (cbBefore m) share \<in> set (validateMembers share ms)) \<and>
         (cbBefore m > 0 \<and> share < 0 \<longrightarrow>
            SurplusExitsNegative (shipId m) (cbBefore m) share \<in> set (validateMembers share ms))"
  using assms by (induction ms) auto

lemma validateMembers_sound:
  assumes "v \<in> set (validateMembers share ms)"
  shows "\<exists>m \<in> set ms.
           (v = DeficitExitsWorse (shipId m) (cbBefore m) share \<and> cbBefore m < 0 \<and> share < cbBefore m) \<or>
           (v = SurplusExitsNegative (shipId m) (cbBefore m) share \<and> cbBefore m > 0 \<and> share < 0)"
  using assms by (induction ms) (auto split: if_splits)

lemma validateMembers_nonneg_share:
  "0 \<le> share \<Longrightarrow> validateMembers share ms = []"
  by (induction ms) auto

lemma insertMembers_eq:
  "insertMembers pid ms tbl =
     (if distinct (map shipId ms) \<and>
         (\<forall>m \<in> set ms. \<not> (\<exists>r \<in> set tbl. pm_pool_id r = pid \<and> pm_ship_id r = shipId m))
      then Some (tbl @ map (member_row pid) ms) else None)"
proof (induction ms arbitrary: tbl)
  case Nil
  then show ?case by simp
next
  case (Cons m ms)
  show ?case
  proof (cases "\<exists>r \<in> set tbl. pm_pool_id r = pid \<and> pm_ship_id r = shipId m")
    case True
    then show ?thesis by auto
  next
    case False
    let ?tbl = "tbl @ [member_row pid m]"
    have "(\<forall>x \<in> set ms. \<not> (\<exists>r \<in> set ?tbl. pm_pool_id r = pid \<and> pm_ship_id r = shipId x))
          \<longleftrightarrow> shipId m \<notin> shipId ` set ms \<and>
              (\<forall>x \<in> set ms. \<not> (\<exists>r \<in> set tbl. pm_pool_id r = pid \<and> pm_ship_id r = shipId x))"
      by (auto simp: image_iff member_row_def)
    then show ?thesis
      using False Cons.IH [of ?tbl] by auto
  qed
qed

lemma insertMembers_fresh:
  assumes "\<forall>r \<in> set tbl. pm_pool_id r \<noteq> pid"
  shows "insertMembers pid ms tbl =
           (if distinct (map shipId ms) then Some (tbl @ map (member_row pid) ms) else None)"
  using assms by (simp add: insertMembers_eq)

lemma savePool_eq:
  assumes "pool_ids_ok d"
  shows "savePool d poolData =
     (if distinct (map shipId (members poolData))
      then (d\<lparr>pools := pools d @
                 [\<lparr>p_id = pools_id_seq d, p_name = name_or_null (pool_name poolData),
                   p_year = pool_year poolData, p_created_at = createdAt poolData\<rparr>],
               pool_members := pool_members d @ map (member_row (pools_id_seq d)) (members poolData),
               pools_id_seq := Suc (pools_id_seq d)\<rparr>,
            Inr (poolData\<lparr>poolId := decimal (pools_id_seq d)\<rparr>))
      else (d\<lparr>pools_id_seq := Suc (pools_id_seq d)\<rparr>, Inl SavePoolFailed))"
proof -
  have "\<forall>r \<in> set (pool_members d). pm_pool_id r \<noteq> pools_id_seq d"
    using assms by (auto simp: pool_ids_ok_def list_all_iff)
  then show ?thesis
    by (simp add: savePool_def Let_def insertMembers_fresh)
qed

lemma savePool_Inr:
  assumes "savePool d poolData = (d', Inr p)"
  shows "p = poolData\<lparr>poolId := decimal (pools_id_seq d)\<rparr> \<and>
         d' = d\<lparr>pools := pools d @
                 [\<lparr>p_id = pools_id_seq d, p_name = name_or_null (pool_name poolData),
                   p_year = pool_year poolData, p_created_at = createdAt poolData\<rparr>],
               pool_members := pool_members d @ map (member_row (pools_id_seq d)) (members poolData),
               pools_id_seq := Suc (pools_id_seq d)\<rparr>"
  using assms
  by (auto simp: savePool_def Let_def insertMembers_eq split: option.splits if_splits)

lemma savePool_Inl:
  assumes "savePool d poolData = (d', Inl e)"
  shows "e = SavePoolFailed \<and> d' = d\<lparr>pools_id_seq := Suc (pools_id_seq d)\<rparr>"
  using assms by (auto simp: savePool_def Let_def split: option.splits)

lemma share_nonneg:
  "0 \<le> psum \<Longrightarrow> 0 \<le> psum / real (length (ms::PoolMember list))"
  by simp

text \<open>
  \<^verbatim>\<open>createPool\<close> without the validation loop: the share is never negative, so the loop never
  returns a message.
\<close>

lemma createPool_eq:
  "createPool d now request =
     (case collectMembers d (req_year request) (memberShipIds request) of
        Inl e \<Rightarrow> (d, Inl e)
      | Inr ms \<Rightarrow>
          if sum_list (map adjustedCB ms) < 0 then (d, Inl NegativePoolSum)
          else savePool d
            \<lparr>poolId = ''pool-'' @ decimal now, pool_name = req_name request,
             pool_year = req_year request,
             members = map (\<lambda>m. m\<lparr>cbAfter := sum_list (map adjustedCB ms) / real (length ms)\<rparr>) ms,
             poolSum = sum_list (map adjustedCB ms), createdAt = now\<rparr>)"
  by (simp add: createPool_def validateAndSave_def Let_def foldl_adjustedCB
      validateMembers_nonneg_share split: sum.splits)

lemma createPool_Inr:
  assumes "createPool d now request = (d', Inr p)"
  shows "\<exists>ms. collectMembers d (req_year request) (memberShipIds request) = Inr ms \<and>
           0 \<le> sum_list (map adjustedCB ms) \<and>
           p = \<lparr>poolId = decimal (pools_id_seq d), pool_name = req_name request,
                pool_year = req_year request,
                members = map (\<lambda>m. m\<lparr>cbAfter := sum_list (map adjustedCB ms) / real (length ms)\<rparr>) ms,
                poolSum = sum_list (map adjustedCB ms), createdAt = now\<rparr> \<and>
           d' = d\<lparr>pools := pools d @
                   [\<lparr>p_id = pools_id_seq d, p_name = name_or_null (req_name request),
                     p_year = req_year request, p_created_at = now\<rparr>],
                 pool_members := pool_members d @ map (member_row (pools_id_seq d)) (members p),
                 pools_id_seq := Suc (pools_id_seq d)\<rparr>"
proof -
  from assms obtain ms where
    ms: "collectMembers d (req_year request) (memberShipIds request) = Inr ms" and
    nn: "\<not> sum_list (map adjustedCB ms) < 0" and
    sv: "savePool d
            \<lparr>poolId = ''pool-'' @ decimal now, pool_name = req_name request,
             pool_year = req_year request,
             members = map (\<lambda>m. m\<lparr>cbAfter := sum_list (map adjustedCB ms) / real (length ms)\<rparr>) ms,
             poolSum = sum_list (map adjustedCB ms), createdAt = now\<rparr> = (d', Inr p)"
    unfolding createPool_eq by (auto split: sum.splits if_splits)
  from savePool_Inr [OF sv] ms nn show ?thesis by auto
qed

lemma createPool_Inl:
  assumes "createPool d now request = (d', Inl e)"
  shows "(\<exists>sid \<in> set (memberShipIds request).
            findByShipAndYear d sid (req_year request) = None \<and>
            e = MissingBalance sid (req_year request) \<and> d' = d) \<or>
         (e = NegativePoolSum \<and> d' = d) \<or>
         (e = SavePoolFailed \<and> d' = d\<lparr>pools_id_seq := Suc (pools_id_seq d)\<rparr>)"
proof (cases "collectMembers d (req_year request) (memberShipIds request)")
  case (Inl e')
  with assms have "e = e'" "d' = d" by (simp_all add: createPool_eq)
  with collectMembers_Inl [OF Inl] show ?thesis by blast
next
  case (Inr ms)
  show ?thesis
  proof (cases "sum_list (map adjustedCB ms) < 0")
    case True
    with assms Inr show ?thesis by (simp add: createPool_eq)
  next
    case False
    with assms Inr savePool_Inl show ?thesis by (simp add: createPool_eq)
  qed
qed

section \<open>Claims on pooling\<close>

text \<open>
  C1 (Article 21 enforcement). A pool that \<^verbatim>\<open>createPool\<close> creates has a pool sum \<open>\<ge> 0\<close>, and
  none of its members, in the returned object or in the rows written to \<^verbatim>\<open>pool_members\<close>,
  has a deficit before and a balance after below it, or a surplus before and a negative balance
  after. The validation loop lists every member that breaks a rule, with the rule broken, and
  when any member breaks a rule steps 4 and 5 return the Article 21 error with that whole list
  and leave the database as it was. The last two statements are about the loop and the branch
  for every share; the share that \<^verbatim>\<open>createPool\<close> itself passes never triggers them, which is
  the subject of C10.
\<close>

theorem article21_enforced:
  "(createPool d now request = (d', Inr p) \<longrightarrow>
      0 \<le> poolSum p \<and>
      (\<forall>m \<in> set (members p).
         \<not> (cbBefore m < 0 \<and> cbAfter m < cbBefore m) \<and> \<not> (cbBefore m > 0 \<and> cbAfter m < 0)) \<and>
      (\<forall>r \<in> set (pool_members d'). r \<notin> set (pool_members d) \<longrightarrow>
         \<not> (pm_cb_before r < 0 \<and> pm_cb_after r < pm_cb_before r) \<and>
         \<not> (pm_cb_before r > 0 \<and> pm_cb_after r < 0))) \<and>
   (\<forall>m \<in> set ms.
      (cbBefore m < 0 \<and> share < cbBefore m \<longrightarrow>
         DeficitExitsWorse (shipId m) (cbBefore m) share \<in> set (validateMembers share ms)) \<and>
      (cbBefore m > 0 \<and> share < 0 \<longrightarrow>
         SurplusExitsNegative (shipId m) (cbBefore m) share \<in> set (validateMembers share ms))) \<and>
   ((\<exists>m \<in> set ms. (cbBefore m < 0 \<and> share < cbBefore m) \<or> (cbBefore m > 0 \<and> share < 0)) \<longrightarrow>
      validateAndSave d now request ms psum share =
        (d, Inl (Article21Violation (validateMembers share ms))))"
proof -
  have created: "0 \<le> poolSum p \<and>
      (\<forall>m \<in> set (members p).
         \<not> (cbBefore m < 0 \<and> cbAfter m < cbBefore m) \<and> \<not> (cbBefore m > 0 \<and> cbAfter m < 0)) \<and>
      (\<forall>r \<in> set (pool_members d'). r \<notin> set (pool_members d) \<longrightarrow>
         \<not> (pm_cb_before r < 0 \<and> pm_cb_after r < pm_cb_before r) \<and>
         \<not> (pm_cb_before r > 0 \<and> pm_cb_after r < 0))"
    if ok: "createPool d now request = (d', Inr p)"
  proof -
    from createPool_Inr [OF ok] obtain ms' where
      nn: "0 \<le> sum_list (map adjustedCB ms')" and
      p: "p = \<lparr>poolId = decimal (pools_id_seq d), pool_name = req_name request,
                pool_year = req_year request,
                members = map (\<lambda>m. m\<lparr>cbAfter := sum_list (map adjustedCB ms') / real (length ms')\<rparr>) ms',
                poolSum = sum_list (map adjustedCB ms'), createdAt = now\<rparr>" and
      d': "pool_members d' = pool_members d @ map (member_row (pools_id_seq d)) (members p)"
      by auto
    have share: "0 \<le> sum_list (map adjustedCB ms') / real (length ms')"
      using nn by simp
    have mem: "\<forall>m \<in> set (members p).
         \<not> (cbBefore m < 0 \<and> cbAfter m < cbBefore m) \<and> \<not> (cbBefore m > 0 \<and> cbAfter m < 0)"
      unfolding p using share by auto
    have rows: "\<forall>r \<in> set (pool_members d'). r \<notin> set (pool_members d) \<longrightarrow>
         \<not> (pm_cb_before r < 0 \<and> pm_cb_after r < pm_cb_before r) \<and>
         \<not> (pm_cb_before r > 0 \<and> pm_cb_after r < 0)"
    proof (intro ballI impI)
      fix r assume "r \<in> set (pool_members d')" and "r \<notin> set (pool_members d)"
      then obtain m where "m \<in> set (members p)" and "r = member_row (pools_id_seq d) m"
        unfolding d' by auto
      with mem show "\<not> (pm_cb_before r < 0 \<and> pm_cb_after r < pm_cb_before r) \<and>
         \<not> (pm_cb_before r > 0 \<and> pm_cb_after r < 0)"
        by (simp add: member_row_def)
    qed
    from nn mem rows show ?thesis by (simp add: p)
  qed
  have listed: "\<forall>m \<in> set ms.
      (cbBefore m < 0 \<and> share < cbBefore m \<longrightarrow>
         DeficitExitsWorse (shipId m) (cbBefore m) share \<in> set (validateMembers share ms)) \<and>
      (cbBefore m > 0 \<and> share < 0 \<longrightarrow>
         SurplusExitsNegative (shipId m) (cbBefore m) share \<in> set (validateMembers share ms))"
    using validateMembers_complete by blast
  have rejected: "validateAndSave d now request ms psum share =
        (d, Inl (Article21Violation (validateMembers share ms)))"
    if "\<exists>m \<in> set ms. (cbBefore m < 0 \<and> share < cbBefore m) \<or> (cbBefore m > 0 \<and> share < 0)"
  proof -
    from that have "validateMembers share ms \<noteq> []"
      by (simp add: validateMembers_empty_iff)
    then show ?thesis by (simp add: validateAndSave_def)
  qed
  from created listed rejected show ?thesis by blast
qed

text \<open>
  E1, E2 and E3 pool \<open>- 10000 + 15000 + 5000 = 10000\<close> and each leaves with a third of it.
  Handed a share of \<open>- 10\<close>, the validation names both the deficit ship and the surplus ship.
\<close>

lemma db_fleet_find:
  "findByShipAndYear db_fleet ''E1'' 2024 = Some (of_row (sc_row 1 ''E1'' (- 10000)))"
  "findByShipAndYear db_fleet ''E2'' 2024 = Some (of_row (sc_row 2 ''E2'' 15000))"
  "findByShipAndYear db_fleet ''E3'' 2024 = Some (of_row (sc_row 3 ''E3'' 5000))"
  "findByShipAndYear db_fleet ''E4'' 2024 = Some (of_row (sc_row 4 ''E4'' (- 20000)))"
  "findByShipAndYear db_fleet ''E5'' 2024 = Some (of_row (sc_row 5 ''E5'' 5000))"
  "findByShipAndYear db_fleet ''E9'' 2024 = None"
  by (simp_all add: findByShipAndYear_def db_fleet_def sc_row_def ship_year_sc_def)

lemma db_fleet_pool_ids_ok: "pool_ids_ok db_fleet"
  by (simp add: pool_ids_ok_def db_fleet_def)

lemma db_fleet_pool_A:
  "createPool db_fleet 9 (pool_request [''E1'', ''E2'', ''E3'']) = (db_pooled, pool_A)"
  unfolding db_pooled_def pool_A_def
  by (simp add: createPool_eq pool_request_def db_fleet_find of_row_def sc_row_def
      savePool_eq [OF db_fleet_pool_ids_ok] pool_member_def member_row_def name_or_null_def)
     (simp add: db_fleet_def)

theorem article21_enforced_witness:
  "createPool db_fleet 9 (pool_request [''E1'', ''E2'', ''E3'']) = (db_pooled, pool_A) \<and>
   (0::real) \<le> 10000 \<and>
   \<not> (- 10000 < (0::real) \<and> (10000::real) / 3 < - 10000) \<and>
   \<not> ((15000::real) > 0 \<and> (10000::real) / 3 < 0) \<and>
   validateAndSave db_fleet 9 (pool_request [''E1'', ''E2'']) 
       [pool_member ''E1'' (- 5) 0, pool_member ''E2'' 3 0] (- 2) (- 10) =
     (db_fleet, Inl (Article21Violation
        [DeficitExitsWorse ''E1'' (- 5) (- 10), SurplusExitsNegative ''E2'' 3 (- 10)]))"
proof -
  let ?ms = "[pool_member ''E1'' (- 5) 0, pool_member ''E2'' 3 0]"
  note t = article21_enforced [of db_fleet 9 "pool_request [''E1'', ''E2'', ''E3'']" db_pooled
      "\<lparr>poolId = decimal 7, pool_name = Some ''Pool'', pool_year = 2024,
           members = [pool_member ''E1'' (- 10000) (10000 / 3), pool_member ''E2'' 15000 (10000 / 3),
                      pool_member ''E3'' 5000 (10000 / 3)],
           poolSum = 10000, createdAt = 9\<rparr>" ?ms "- 10" "- 2"]
  have v: "validateMembers (- 10) ?ms =
      [DeficitExitsWorse ''E1'' (- 5) (- 10), SurplusExitsNegative ''E2'' 3 (- 10)]"
    by (simp add: pool_member_def)
  have bad: "\<exists>m \<in> set ?ms. (cbBefore m < 0 \<and> - 10 < cbBefore m) \<or> (cbBefore m > 0 \<and> (- 10::real) < 0)"
    by (simp add: pool_member_def)
  note t2 = article21_enforced [of db_fleet 9 "pool_request [''E1'', ''E2'']" _ _ ?ms "- 10" "- 2"]
  from t2 bad have "validateAndSave db_fleet 9 (pool_request [''E1'', ''E2'']) ?ms (- 2) (- 10) =
      (db_fleet, Inl (Article21Violation (validateMembers (- 10) ?ms)))"
    by blast
  then have r: "validateAndSave db_fleet 9 (pool_request [''E1'', ''E2'']) ?ms (- 2) (- 10) =
      (db_fleet, Inl (Article21Violation
        [DeficitExitsWorse ''E1'' (- 5) (- 10), SurplusExitsNegative ''E2'' 3 (- 10)]))"
    by (simp only: v)
  from t db_fleet_pool_A [unfolded pool_A_def]
  have "(0::real) \<le> 10000 \<and>
      (\<forall>m \<in> set [pool_member ''E1'' (- 10000) (10000 / 3), pool_member ''E2'' 15000 (10000 / 3),
                      pool_member ''E3'' 5000 (10000 / 3)].
         \<not> (cbBefore m < 0 \<and> cbAfter m < cbBefore m) \<and> \<not> (cbBefore m > 0 \<and> cbAfter m < 0))"
    by simp
  then have "(0::real) \<le> 10000 \<and> \<not> (- 10000 < (0::real) \<and> (10000::real) / 3 < - 10000) \<and>
      \<not> ((15000::real) > 0 \<and> (10000::real) / 3 < 0)"
    by (simp add: pool_member_def)
  with db_fleet_pool_A r show ?thesis by blast
qed



text \<open>
  C6 (pool creation leaves the ledger alone). A successful \<^verbatim>\<open>createPool\<close> appends one row to
  \<^verbatim>\<open>pools\<close> and one row per member to \<^verbatim>\<open>pool_members\<close>, carrying the balances before and after,
  and draws one pool id; \<^verbatim>\<open>ship_compliance\<close>, \<^verbatim>\<open>bank_entries\<close> and \<^verbatim>\<open>routes\<close> are what they were,
  so the ledger value of every ship and year is unchanged.
\<close>

theorem createPool_leaves_ledger:
  "createPool d now request = (d', Inr p) \<longrightarrow>
     d' = d\<lparr>pools := pools d @
               [\<lparr>p_id = pools_id_seq d, p_name = name_or_null (req_name request),
                 p_year = req_year request, p_created_at = now\<rparr>],
             pool_members := pool_members d @ map (member_row (pools_id_seq d)) (members p),
             pools_id_seq := Suc (pools_id_seq d)\<rparr> \<and>
     ship_compliance d' = ship_compliance d \<and>
     bank_entries d' = bank_entries d \<and>
     routes d' = routes d \<and>
     (\<forall>ship yr. ledgerValue d' ship yr = ledgerValue d ship yr) \<and>
     (\<forall>ship yr. findByShipAndYear d' ship yr = findByShipAndYear d ship yr)"
proof (intro impI)
  assume "createPool d now request = (d', Inr p)"
  from createPool_Inr [OF this] have
    d': "d' = d\<lparr>pools := pools d @
               [\<lparr>p_id = pools_id_seq d, p_name = name_or_null (req_name request),
                 p_year = req_year request, p_created_at = now\<rparr>],
             pool_members := pool_members d @ map (member_row (pools_id_seq d)) (members p),
             pools_id_seq := Suc (pools_id_seq d)\<rparr>"
    by blast
  have sc: "ship_compliance d' = ship_compliance d" by (subst d') simp
  have be: "bank_entries d' = bank_entries d" by (subst d') simp
  have rt: "routes d' = routes d" by (subst d') simp
  have lv: "\<forall>ship yr. ledgerValue d' ship yr = ledgerValue d ship yr"
    by (simp add: ledgerValue_def sc)
  have fb: "\<forall>ship yr. findByShipAndYear d' ship yr = findByShipAndYear d ship yr"
    by (simp add: findByShipAndYear_def sc)
  from d' sc be rt lv fb
  show "d' = d\<lparr>pools := pools d @
               [\<lparr>p_id = pools_id_seq d, p_name = name_or_null (req_name request),
                 p_year = req_year request, p_created_at = now\<rparr>],
             pool_members := pool_members d @ map (member_row (pools_id_seq d)) (members p),
             pools_id_seq := Suc (pools_id_seq d)\<rparr> \<and>
     ship_compliance d' = ship_compliance d \<and>
     bank_entries d' = bank_entries d \<and>
     routes d' = routes d \<and>
     (\<forall>ship yr. ledgerValue d' ship yr = ledgerValue d ship yr) \<and>
     (\<forall>ship yr. findByShipAndYear d' ship yr = findByShipAndYear d ship yr)"
    by blast
qed

text \<open>
  After pooling with E2 and E3 the pool records \<open>10000 / 3\<close> as the balance after of E1; its
  ledger value is still \<open>- 10000\<close>.
\<close>

theorem createPool_leaves_ledger_witness:
  "createPool db_fleet 9 (pool_request [''E1'', ''E2'', ''E3'']) = (db_pooled, pool_A) \<and>
   ship_compliance db_pooled = ship_compliance db_fleet \<and>
   ledgerValue db_fleet ''E1'' 2024 = Some (- 10000) \<and>
   ledgerValue db_pooled ''E1'' 2024 = Some (- 10000)"
proof -
  have l: "ledgerValue db_fleet ''E1'' 2024 = Some (- 10000)"
    by (simp add: ledgerValue_def db_fleet_def sc_row_def ship_year_sc_def)
  from createPool_leaves_ledger [of db_fleet 9 "pool_request [''E1'', ''E2'', ''E3'']" db_pooled]
    db_fleet_pool_A [unfolded pool_A_def]
  have "ship_compliance db_pooled = ship_compliance db_fleet \<and>
        (\<forall>ship yr. ledgerValue db_pooled ship yr = ledgerValue db_fleet ship yr)"
    by blast
  with l db_fleet_pool_A show ?thesis by simp
qed

text \<open>
  C9 (missing balance; all or nothing). If a ship of the member list has no
  \<^verbatim>\<open>ship_compliance\<close> row for the year, and all ships before it in the list have one,
  \<^verbatim>\<open>createPool\<close> fails with the missing-balance error naming that ship and the year. Whenever
  \<^verbatim>\<open>createPool\<close> fails, \<^verbatim>\<open>pools\<close> and \<^verbatim>\<open>pool_members\<close> (and every other table) are what they were;
  when the failure is a missing balance, a negative pool sum or an Article 21 violation the
  whole database is unchanged, and when the repository rejects the pool only the id counter
  of \<^verbatim>\<open>pools\<close> has moved. When \<^verbatim>\<open>createPool\<close> succeeds, the pool row and one member row per ship
  of the list have been written.
\<close>

theorem createPool_all_or_nothing:
  "((\<forall>s \<in> set pre. findByShipAndYear d s (req_year request) \<noteq> None) \<and>
    findByShipAndYear d sid (req_year request) = None \<and>
    memberShipIds request = pre @ sid # post \<longrightarrow>
      createPool d now request = (d, Inl (MissingBalance sid (req_year request)))) \<and>
   (createPool d now request = (d', Inl e) \<longrightarrow>
      pools d' = pools d \<and> pool_members d' = pool_members d \<and>
      ship_compliance d' = ship_compliance d \<and> bank_entries d' = bank_entries d \<and>
      routes d' = routes d \<and>
      (e \<noteq> SavePoolFailed \<longrightarrow> d' = d)) \<and>
   (createPool d now request = (d', Inr p) \<longrightarrow>
      pools d' = pools d @
        [\<lparr>p_id = pools_id_seq d, p_name = name_or_null (req_name request),
          p_year = req_year request, p_created_at = now\<rparr>] \<and>
      pool_members d' = pool_members d @ map (member_row (pools_id_seq d)) (members p) \<and>
      map shipId (members p) = memberShipIds request)"
proof -
  have missing: "createPool d now request = (d, Inl (MissingBalance sid (req_year request)))"
    if "\<forall>s \<in> set pre. findByShipAndYear d s (req_year request) \<noteq> None"
      and "findByShipAndYear d sid (req_year request) = None"
      and "memberShipIds request = pre @ sid # post"
    using collectMembers_first_missing [OF that(1,2), of post] that(3)
    by (simp add: createPool_def)
  have failed: "pools d' = pools d \<and> pool_members d' = pool_members d \<and>
      ship_compliance d' = ship_compliance d \<and> bank_entries d' = bank_entries d \<and>
      routes d' = routes d \<and> (e \<noteq> SavePoolFailed \<longrightarrow> d' = d)"
    if "createPool d now request = (d', Inl e)"
    using createPool_Inl [OF that] by auto
  have created: "pools d' = pools d @
        [\<lparr>p_id = pools_id_seq d, p_name = name_or_null (req_name request),
          p_year = req_year request, p_created_at = now\<rparr>] \<and>
      pool_members d' = pool_members d @ map (member_row (pools_id_seq d)) (members p) \<and>
      map shipId (members p) = memberShipIds request"
    if ok: "createPool d now request = (d', Inr p)"
  proof -
    from createPool_Inr [OF ok] obtain ms where
      ms: "collectMembers d (req_year request) (memberShipIds request) = Inr ms" and
      p: "members p = map (\<lambda>m. m\<lparr>cbAfter := sum_list (map adjustedCB ms) / real (length ms)\<rparr>) ms" and
      d': "d' = d\<lparr>pools := pools d @
                   [\<lparr>p_id = pools_id_seq d, p_name = name_or_null (req_name request),
                     p_year = req_year request, p_created_at = now\<rparr>],
                 pool_members := pool_members d @ map (member_row (pools_id_seq d)) (members p),
                 pools_id_seq := Suc (pools_id_seq d)\<rparr>"
      by auto
    have "map shipId (members p) = memberShipIds request"
      using collectMembers_Inr(1) [OF ms] by (simp add: p comp_def)
    moreover have "pools d' = pools d @
        [\<lparr>p_id = pools_id_seq d, p_name = name_or_null (req_name request),
          p_year = req_year request, p_created_at = now\<rparr>]" by (subst d') simp
    moreover have "pool_members d' = pool_members d @ map (member_row (pools_id_seq d)) (members p)"
      by (subst d') simp
    ultimately show ?thesis by blast
  qed
  from missing failed created show ?thesis by blast
qed

text \<open>
  E9 has no balance: the pool of E2, E9 and E3 is refused with the error naming E9, and the
  pool of E4 and E5, whose sum is \<open>- 15000\<close>, with the negative-sum error; the database is the
  same after both.
\<close>

lemma db_fleet_pool_missing:
  "createPool db_fleet 9 (pool_request [''E2'', ''E9'', ''E3'']) =
     (db_fleet, Inl (MissingBalance ''E9'' 2024))"
  by (simp add: createPool_eq pool_request_def db_fleet_find)

lemma db_fleet_pool_B:
  "createPool db_fleet 9 (pool_request [''E4'', ''E5'']) = (db_fleet, Inl NegativePoolSum)"
  by (simp add: createPool_eq pool_request_def db_fleet_find of_row_def sc_row_def)

theorem createPool_all_or_nothing_witness:
  "findByShipAndYear db_fleet ''E2'' 2024 \<noteq> None \<and> findByShipAndYear db_fleet ''E9'' 2024 = None \<and>
   createPool db_fleet 9 (pool_request [''E2'', ''E9'', ''E3'']) =
     (db_fleet, Inl (MissingBalance ''E9'' 2024)) \<and>
   createPool db_fleet 9 (pool_request [''E4'', ''E5'']) = (db_fleet, Inl NegativePoolSum) \<and>
   pools db_fleet = [] \<and> pool_members db_fleet = [] \<and>
   createPool db_fleet 9 (pool_request [''E1'', ''E2'', ''E3'']) = (db_pooled, pool_A) \<and>
   length (pools db_pooled) = 1 \<and> length (pool_members db_pooled) = 3"
proof -
  have h1: "\<forall>s \<in> set [''E2'']. findByShipAndYear db_fleet s (req_year (pool_request [''E2'', ''E9'', ''E3''])) \<noteq> None"
    by (simp add: pool_request_def db_fleet_find)
  have h2: "findByShipAndYear db_fleet ''E9'' (req_year (pool_request [''E2'', ''E9'', ''E3''])) = None"
    by (simp add: pool_request_def db_fleet_find)
  have h3: "memberShipIds (pool_request [''E2'', ''E9'', ''E3'']) = [''E2''] @ ''E9'' # [''E3'']"
    by (simp add: pool_request_def)
  from createPool_all_or_nothing [of "[''E2'']" db_fleet "pool_request [''E2'', ''E9'', ''E3'']"
      "''E9''" "[''E3'']" 9] h1 h2 h3
  have m: "createPool db_fleet 9 (pool_request [''E2'', ''E9'', ''E3'']) =
      (db_fleet, Inl (MissingBalance ''E9'' 2024))"
    by (simp add: pool_request_def)
  from createPool_all_or_nothing [of _ db_fleet "pool_request [''E1'', ''E2'', ''E3'']" _ _ 9
      db_pooled _ "\<lparr>poolId = decimal 7, pool_name = Some ''Pool'', pool_year = 2024,
          members = [pool_member ''E1'' (- 10000) (10000 / 3), pool_member ''E2'' 15000 (10000 / 3),
                     pool_member ''E3'' 5000 (10000 / 3)],
          poolSum = 10000, createdAt = 9\<rparr>"]
    db_fleet_pool_A [unfolded pool_A_def]
  have "pools db_pooled = pools db_fleet @
        [\<lparr>p_id = pools_id_seq db_fleet, p_name = name_or_null (req_name (pool_request [''E1'', ''E2'', ''E3''])),
          p_year = req_year (pool_request [''E1'', ''E2'', ''E3'']), p_created_at = 9\<rparr>] \<and>
      pool_members db_pooled = pool_members db_fleet @ map (member_row (pools_id_seq db_fleet))
         [pool_member ''E1'' (- 10000) (10000 / 3), pool_member ''E2'' 15000 (10000 / 3),
                     pool_member ''E3'' 5000 (10000 / 3)]"
    by simp
  moreover have e: "pools db_fleet = []" "pool_members db_fleet = []" by (simp_all add: db_fleet_def)
  ultimately have c: "length (pools db_pooled) = 1 \<and> length (pool_members db_pooled) = 3"
    by simp
  from m db_fleet_pool_B e db_fleet_pool_A c db_fleet_find(2,6) show ?thesis by simp
qed




section \<open>Computing a balance: the route lookup and the upsert\<close>



lemma key_set_cb [simp]:
  "sc_ship_id (set_cb now cb r) = sc_ship_id r" "sc_year (set_cb now cb r) = sc_year r"
  "sc_cb_gco2eq (set_cb now cb r) = cb" "ship_year_sc ship yr (set_cb now cb r) = ship_year_sc ship yr r"
  by (simp_all add: set_cb_def ship_year_sc_def)










section \<open>Claims on computing a balance\<close>







end
